theory Spec2Isabelle
  imports Complex_Main
begin

section \<open>The CustomSVM class of the notebook, as a shallow embedding\<close>

text \<open>
  The notebook's only algorithmic code is the class \<open>CustomSVM\<close>: a kernel evaluator
  (\<open>_kernel\<close>), a simplified SMO trainer (\<open>fit\<close>) and the predictor
  (\<open>decision_function\<close>, \<open>predict\<close>).

  Conventions of the embedding.
  \<^item> A numpy array of floats is a list of \<open>real\<close>s, a 2-D array a list of rows. IEEE
    doubles are idealised as real numbers: rounding, infinities and NaN are outside the
    model. A 2-D array is rectangular. A label array is one-dimensional; when it has not
    one entry per row of X, numpy raises, and \<open>fit\<close> has a branch for it.
  \<^item> An exception is a value of type \<open>error\<close>; a method that can raise returns a sum.
  \<^item> The global generator behind \<open>np.random.randint\<close> is a sequence \<open>rng\<close> of draws and
    a position in it: \<open>rng k\<close> is what the k-th call of \<open>np.random.randint(0, n_samples)\<close>
    returns. The position is threaded through \<open>fit\<close>.
  \<^item> The label array is the one object \<open>fit\<close> shares with its caller and writes to (after
    copying it), so label arrays live in an explicit store and \<open>fit\<close> receives a
    reference. X is only read, and the arrays behind \<open>self.alpha\<close> are allocated by
    \<open>fit\<close> itself; they are passed by value.
\<close>

type_synonym vec = "real list"
type_synonym matrix = "real list list"

datatype error = ValueError string | AttributeError | TypeError | IndexError

record svm =
  kernel :: string
  C :: real
  gamma :: real
  degree :: nat
  coef0 :: real
  alpha :: "vec option"
  b :: real
  X_train :: "matrix option"
  y_train :: "vec option"
  support_vectors :: "matrix option"

text \<open>\<open>__init__\<close>: the fields set during training start as \<open>None\<close>, the bias as 0.
  The docstring types \<open>degree\<close> as int; the model takes the exponents \<open>**\<close> handles
  without division, the naturals.\<close>

definition CustomSVM :: "string \<Rightarrow> real \<Rightarrow> real \<Rightarrow> nat \<Rightarrow> real \<Rightarrow> svm" where
  "CustomSVM k c g d c0 =
     \<lparr>kernel = k, C = c, gamma = g, degree = d, coef0 = c0,
      alpha = None, b = 0, X_train = None, y_train = None, support_vectors = None\<rparr>"

subsection \<open>Array operations\<close>

text \<open>Inner product of two rows, and \<open>X1 @ X2.T\<close>.\<close>

definition dot :: "vec \<Rightarrow> vec \<Rightarrow> real" where
  "dot u v = sum_list (map2 (*) u v)"

definition matmul_T :: "matrix \<Rightarrow> matrix \<Rightarrow> matrix" where
  "matmul_T X1 X2 = map (\<lambda>u. map (\<lambda>v. dot u v) X2) X1"

text \<open>\<open>np.sum(X**2, axis=1)\<close> and the scalar multiple \<open>c * X\<close>.\<close>

definition sq_norms :: "matrix \<Rightarrow> vec" where
  "sq_norms X = map (\<lambda>u. sum_list (map (\<lambda>x. x ^ 2) u)) X"

definition scale :: "real \<Rightarrow> matrix \<Rightarrow> matrix" where
  "scale c X = map (map (\<lambda>x. c * x)) X"

text \<open>Column \<open>K[:, i]\<close>; \<open>np.clip(v, L, H)\<close>, which is \<open>minimum(maximum(v, L), H)\<close>;
  and boolean-mask indexing \<open>xs[mask]\<close>.\<close>

definition column :: "matrix \<Rightarrow> nat \<Rightarrow> vec" where
  "column K i = map (\<lambda>row. row ! i) K"

definition clip :: "real \<Rightarrow> real \<Rightarrow> real \<Rightarrow> real" where
  "clip v L H = min (max v L) H"

definition mask_index :: "bool list \<Rightarrow> 'a list \<Rightarrow> 'a list" where
  "mask_index sel xs = map snd (filter fst (zip sel xs))"

subsection \<open>The kernel evaluator\<close>

text \<open>
  \<open>_kernel(self, X1, X2)\<close>. The second argument is \<open>self.support_vectors\<close> when the
  predictor calls it, which is \<open>None\<close> before training: \<open>None.T\<close> raises AttributeError
  (linear, poly), \<open>None**2\<close> raises TypeError (rbf). In the rbf branch Python reads
  \<open>2 * X1 @ X2.T\<close> as \<open>(2 * X1) @ X2.T\<close>.
\<close>

definition kernel_fn :: "svm \<Rightarrow> matrix \<Rightarrow> matrix option \<Rightarrow> error + matrix" where
  "kernel_fn m X1 X2opt =
     (if kernel m = ''linear'' then
        (case X2opt of None \<Rightarrow> Inl AttributeError
         | Some X2 \<Rightarrow> Inr (matmul_T X1 X2))
      else if kernel m = ''poly'' then
        (case X2opt of None \<Rightarrow> Inl AttributeError
         | Some X2 \<Rightarrow>
             Inr (map (map (\<lambda>v. (gamma m * v + coef0 m) ^ degree m)) (matmul_T X1 X2)))
      else if kernel m = ''rbf'' then
        (case X2opt of None \<Rightarrow> Inl TypeError
         | Some X2 \<Rightarrow>
             Inr (map2 (\<lambda>s1 row. map2 (\<lambda>s2 d. exp (- gamma m * (s1 + s2 - d)))
                                     (sq_norms X2) row)
                       (sq_norms X1) (matmul_T (scale 2 X1) X2)))
      else Inl (ValueError ''Unknown kernel type''))"

subsection \<open>The label arrays shared with the caller\<close>

text \<open>A store of label arrays; a reference is an index into it. \<open>y.copy()\<close> allocates a
  new array, \<open>y[y == c] = v\<close> writes into the array \<open>y\<close> refers to.\<close>

type_synonym store = "vec list"

definition ndarray_copy :: "store \<Rightarrow> nat \<Rightarrow> nat \<times> store" where
  "ndarray_copy s r = (length s, s @ [s ! r])"

definition setitem_eq :: "store \<Rightarrow> nat \<Rightarrow> real \<Rightarrow> real \<Rightarrow> store" where
  "setitem_eq s r c v = s[r := map (\<lambda>x. if x = c then v else x) (s ! r)]"

subsection \<open>The SMO trainer\<close>

text \<open>The variables the optimisation loop updates: \<open>self.alpha\<close>, \<open>self.b\<close>, the position
  in the sequence of random draws and \<open>num_changed\<close>. \<open>st_trace\<close> is not a variable of the
  program: it records \<open>num_changed\<close> at the end of every outer pass, so that the number
  of passes can be spoken of.\<close>

record smo_state =
  st_alpha :: vec
  st_b :: real
  st_pos :: nat
  st_changed :: nat
  st_trace :: "nat list"

text \<open>\<open>(self.alpha * y) @ K[:, i] + self.b - y[i]\<close>.\<close>

definition error_at :: "matrix \<Rightarrow> vec \<Rightarrow> vec \<Rightarrow> real \<Rightarrow> nat \<Rightarrow> real" where
  "error_at K ys a bias i = dot (map2 (*) a ys) (column K i) + bias - ys ! i"

text \<open>\<open>j = i; while j == i: j = np.random.randint(0, n_samples)\<close>: draw until the draw
  differs from i. The loop has no bound, so it is a partial function; \<open>None\<close> is the
  run that never leaves the loop.\<close>

partial_function (option) pick_partner :: "(nat \<Rightarrow> nat) \<Rightarrow> nat \<Rightarrow> nat \<Rightarrow> (nat \<times> nat) option" where
  "pick_partner rng i pos =
     (if rng pos = i then pick_partner rng i (Suc pos) else Some (rng pos, Suc pos))"

text \<open>The bounds L and H of the new \<open>alpha[j]\<close>.\<close>

definition bounds :: "real \<Rightarrow> real \<Rightarrow> real \<Rightarrow> real \<Rightarrow> real \<Rightarrow> real \<times> real" where
  "bounds Cc yi yj ai aj =
     (if yi \<noteq> yj then (max 0 (aj - ai), min Cc (Cc + aj - ai))
      else (max 0 (ai + aj - Cc), min Cc (ai + aj)))"

text \<open>The body of the inner loop once j is chosen, from \<open>Ej = ...\<close> to
  \<open>num_changed += 1\<close>. Each \<open>continue\<close> is a branch that returns the state as it is at
  that point. The two assignments to \<open>self.alpha[j]\<close> (the raw value, then its clipped
  value) are one update here.\<close>

definition pair_update ::
  "real \<Rightarrow> vec \<Rightarrow> matrix \<Rightarrow> nat \<Rightarrow> nat \<Rightarrow> real \<Rightarrow> smo_state \<Rightarrow> smo_state" where
  "pair_update Cc ys K i j Ei st =
     (let a = st_alpha st;
          Ej = error_at K ys a (st_b st) j;
          alpha_i_old = a ! i;
          alpha_j_old = a ! j;
          (L, H) = bounds Cc (ys ! i) (ys ! j) (a ! i) (a ! j)
      in if L = H then st
         else
           let eta = 2 * K ! i ! j - K ! i ! i - K ! j ! j
           in if eta \<ge> 0 then st
              else
                let a1 = a[j := clip (alpha_j_old - ys ! j * (Ei - Ej) / eta) L H]
                in if \<bar>a1 ! j - alpha_j_old\<bar> < 1 / 100000 then st\<lparr>st_alpha := a1\<rparr>
                   else
                     let a2 = a1[i := alpha_i_old + ys ! i * ys ! j * (alpha_j_old - a1 ! j)];
                         b1 = st_b st - Ei - ys ! i * (a2 ! i - alpha_i_old) * K ! i ! i
                                - ys ! j * (a2 ! j - alpha_j_old) * K ! i ! j;
                         b2 = st_b st - Ej - ys ! i * (a2 ! i - alpha_i_old) * K ! i ! j
                                - ys ! j * (a2 ! j - alpha_j_old) * K ! j ! j;
                         b_new = (if 0 < a2 ! i \<and> a2 ! i < Cc then b1
                                  else if 0 < a2 ! j \<and> a2 ! j < Cc then b2
                                  else (b1 + b2) / 2)
                     in st\<lparr>st_alpha := a2, st_b := b_new, st_changed := st_changed st + 1\<rparr>)"

text \<open>The check of the KKT conditions that guards the inner body.\<close>

definition kkt_violated :: "real \<Rightarrow> real \<Rightarrow> vec \<Rightarrow> vec \<Rightarrow> nat \<Rightarrow> real \<Rightarrow> bool" where
  "kkt_violated Cc tol ys a i Ei \<longleftrightarrow>
     (ys ! i * Ei < - tol \<and> a ! i < Cc) \<or> (ys ! i * Ei > tol \<and> a ! i > 0)"

text \<open>\<open>for i in range(n_samples)\<close>, over the list of the indices still to visit.\<close>

fun smo_pass ::
  "real \<Rightarrow> real \<Rightarrow> (nat \<Rightarrow> nat) \<Rightarrow> vec \<Rightarrow> matrix \<Rightarrow> nat list \<Rightarrow> smo_state \<Rightarrow> smo_state option" where
  "smo_pass Cc tol rng ys K [] st = Some st"
| "smo_pass Cc tol rng ys K (i # rest) st =
     (let Ei = error_at K ys (st_alpha st) (st_b st) i
      in if kkt_violated Cc tol ys (st_alpha st) i Ei then
           (case pick_partner rng i (st_pos st) of
              None \<Rightarrow> None
            | Some (j, p) \<Rightarrow>
                smo_pass Cc tol rng ys K rest (pair_update Cc ys K i j Ei (st\<lparr>st_pos := p\<rparr>)))
         else smo_pass Cc tol rng ys K rest st)"

text \<open>\<open>for _ in range(max_iter)\<close>, over the number of passes still allowed, with the
  \<open>break\<close> after a pass that changed nothing.\<close>

fun smo_loop ::
  "real \<Rightarrow> real \<Rightarrow> (nat \<Rightarrow> nat) \<Rightarrow> vec \<Rightarrow> matrix \<Rightarrow> nat \<Rightarrow> nat \<Rightarrow> smo_state \<Rightarrow> smo_state option" where
  "smo_loop Cc tol rng ys K n 0 st = Some st"
| "smo_loop Cc tol rng ys K n (Suc k) st =
     (case smo_pass Cc tol rng ys K [0..<n] (st\<lparr>st_changed := 0\<rparr>) of
        None \<Rightarrow> None
      | Some st1 \<Rightarrow>
          let st2 = st1\<lparr>st_trace := st_trace st1 @ [st_changed st1]\<rparr>
          in if st_changed st1 = 0 then Some st2
             else smo_loop Cc tol rng ys K n k st2)"

text \<open>The state the loop starts from: all multipliers 0, bias 0.\<close>

definition smo_init :: "nat \<Rightarrow> nat \<Rightarrow> smo_state" where
  "smo_init n pos =
     \<lparr>st_alpha = replicate n 0, st_b = 0, st_pos = pos, st_changed = 0, st_trace = []\<rparr>"

text \<open>
  What \<open>fit\<close> does after \<open>_kernel\<close> when the label array \<open>ys\<close> has not one entry per
  row of X. The code has no check of its own; the exception is numpy's, raised by the
  first operation that meets the two lengths.
  \<^item> When the inner loop body never runs (no passes, or no rows), that is the last
    statement \<open>self.y_train = y[sv_indices]\<close>: a boolean index of the wrong length is an
    IndexError. \<open>self.support_vectors\<close> and \<open>self.alpha\<close> are assigned before it; all
    multipliers are still 0, so both are empty.
  \<^item> Otherwise it is the first \<open>Ei\<close>, at \<open>i = 0\<close>. Unless \<open>ys\<close> has exactly one entry,
    \<open>(self.alpha * y) @ K[:, 0]\<close> raises ValueError: the two arrays do not broadcast
    when X has two rows or more, and with one row the product has not the length of the
    column. (numpy's messages go on with the shapes.)
  \<^item> A one-entry \<open>ys\<close> broadcasts, and \<open>Ei\<close> is \<open>0 + 0 - y[0]\<close>. If the KKT check fires,
    a partner \<open>j\<close> other than 0 is drawn and \<open>y[j]\<close> in \<open>Ej\<close> is an IndexError; if not,
    \<open>y[1]\<close> in the next \<open>Ei\<close> is.
\<close>

definition label_shape_error ::
  "svm \<Rightarrow> matrix \<Rightarrow> vec \<Rightarrow> int \<Rightarrow> real \<Rightarrow> (nat \<Rightarrow> nat) \<Rightarrow> nat \<Rightarrow> (error \<times> svm \<times> nat) option" where
  "label_shape_error m1 X ys max_iter tol rng pos =
     (let n_samples = length X
      in if nat max_iter = 0 \<or> n_samples = 0 then
           Some (IndexError, m1\<lparr>support_vectors := Some [], alpha := Some []\<rparr>, pos)
         else if length ys \<noteq> 1 then
           Some (ValueError (if n_samples = 1
                             then ''matmul: Input operand 1 has a mismatch in its core dimension 0''
                             else ''operands could not be broadcast together''),
                 m1, pos)
         else if kkt_violated (C m1) tol ys (replicate n_samples 0) 0 (0 + 0 - ys ! 0) then
           (case pick_partner rng 0 pos of
              None \<Rightarrow> None
            | Some (j, p) \<Rightarrow> Some (IndexError, m1, p))
         else Some (IndexError, m1, pos))"

text \<open>
  \<open>fit(self, X, y, max_iter, tol)\<close>. \<open>y\<close> is a reference into the store \<open>s\<close>. The result is
  \<open>None\<close> when the call never returns; otherwise the outcome (\<open>Inl\<close> the exception raised,
  \<open>Inr ()\<close> a normal return), the object \<open>self\<close> as the call leaves it, the position in
  the random sequence, and the store. \<open>range(max_iter)\<close> has \<open>nat max_iter\<close> elements.
\<close>

definition fit ::
  "svm \<Rightarrow> store \<Rightarrow> matrix \<Rightarrow> nat \<Rightarrow> int \<Rightarrow> real \<Rightarrow> (nat \<Rightarrow> nat) \<Rightarrow> nat
     \<Rightarrow> ((error + unit) \<times> svm \<times> nat \<times> store) option" where
  "fit m s X y max_iter tol rng pos =
     (let (y', s1) = ndarray_copy s y;
          s2 = setitem_eq s1 y' 0 (- 1);
          ys = s2 ! y';
          n_samples = length X;
          m1 = m\<lparr>X_train := Some X, y_train := Some ys,
                 alpha := Some (replicate n_samples 0), b := 0\<rparr>
      in case kernel_fn m1 X (Some X) of
           Inl e \<Rightarrow> Some (Inl e, m1, pos, s2)
         | Inr K \<Rightarrow>
             if length ys \<noteq> n_samples then
               (case label_shape_error m1 X ys max_iter tol rng pos of
                  None \<Rightarrow> None
                | Some (e, m2, p) \<Rightarrow> Some (Inl e, m2, p, s2))
             else
               (case smo_loop (C m1) tol rng ys K n_samples (nat max_iter)
                       (smo_init n_samples pos) of
                  None \<Rightarrow> None
                | Some st \<Rightarrow>
                    let sv_indices = map (\<lambda>v. v > 1 / 100000) (st_alpha st)
                    in Some (Inr (),
                             m1\<lparr>b := st_b st,
                                support_vectors := Some (mask_index sv_indices X),
                                alpha := Some (mask_index sv_indices (st_alpha st)),
                                y_train := Some (mask_index sv_indices ys)\<rparr>,
                             st_pos st, s2)))"

subsection \<open>The predictor\<close>

text \<open>\<open>(self.alpha * self.y_train) @ K.T + self.b\<close>; with \<open>self.alpha\<close> or
  \<open>self.y_train\<close> still \<open>None\<close> the product raises TypeError.\<close>

definition decision_function :: "svm \<Rightarrow> matrix \<Rightarrow> error + vec" where
  "decision_function m X =
     (case kernel_fn m X (support_vectors m) of
        Inl e \<Rightarrow> Inl e
      | Inr K \<Rightarrow>
          (case (alpha m, y_train m) of
             (Some a, Some ys) \<Rightarrow> Inr (map (\<lambda>row. dot (map2 (*) a ys) row + b m) K)
           | _ \<Rightarrow> Inl TypeError))"

definition predict :: "svm \<Rightarrow> matrix \<Rightarrow> error + vec" where
  "predict m X = (case decision_function m X of Inl e \<Rightarrow> Inl e | Inr d \<Rightarrow> Inr (map sgn d))"

subsection \<open>Notions used by the statements, and a fixed random sequence\<close>

text \<open>All multipliers of a list lie in the interval from 0 to the bound.\<close>

definition in_box :: "real \<Rightarrow> vec \<Rightarrow> bool" where
  "in_box Cc a \<longleftrightarrow> list_all (\<lambda>v. 0 \<le> v \<and> v \<le> Cc) a"

text \<open>What \<open>y[y == 0] = -1\<close> makes of the values of a label array.\<close>

definition relabel :: "vec \<Rightarrow> vec" where
  "relabel ys = map (\<lambda>x. if x = 0 then - 1 else x) ys"

text \<open>The entries of \<open>xs\<close> at the indices whose multiplier in \<open>a\<close> exceeds 1e-5, in order.\<close>

definition retained :: "vec \<Rightarrow> 'a list \<Rightarrow> 'a list" where
  "retained a xs = map (\<lambda>k. xs ! k) (filter (\<lambda>k. 1 / 100000 < a ! k) [0..<length a])"

text \<open>A random sequence for the concrete runs below: the draws 1, 0, 1, 0, ...\<close>

definition alternating :: "nat \<Rightarrow> nat" where
  "alternating k = (if even k then 1 else 0)"

section \<open>Evaluation lemmas\<close>

lemma pick_partner_hit:
  "rng pos \<noteq> i \<Longrightarrow> pick_partner rng i pos = Some (rng pos, Suc pos)"
  by (subst pick_partner.simps) simp

lemma pick_partner_miss:
  "rng pos = i \<Longrightarrow> pick_partner rng i pos = pick_partner rng i (Suc pos)"
  by (subst pick_partner.simps) simp

lemma smo_loop_unfold:
  "0 < k \<Longrightarrow> smo_loop Cc tol rng ys K n k st =
     (case smo_pass Cc tol rng ys K [0..<n] (st\<lparr>st_changed := 0\<rparr>) of
        None \<Rightarrow> None
      | Some st1 \<Rightarrow>
          let st2 = st1\<lparr>st_trace := st_trace st1 @ [st_changed st1]\<rparr>
          in if st_changed st1 = 0 then Some st2
             else smo_loop Cc tol rng ys K n (k - 1) st2)"
  by (cases k) (simp_all split: option.split add: Let_def)

lemmas run_simps =
  fit_def ndarray_copy_def setitem_eq_def kernel_fn_def CustomSVM_def matmul_T_def dot_def
  smo_init_def error_at_def column_def kkt_violated_def pick_partner_hit pick_partner_miss
  pair_update_def bounds_def clip_def Let_def mask_index_def smo_loop_unfold alternating_def

section \<open>The kernel evaluator\<close>

lemma dot_commute: "dot u v = dot v u"
proof (induction u arbitrary: v)
  case Nil
  show ?case by (simp add: dot_def)
next
  case (Cons x u)
  show ?case
  proof (cases v)
    case Nil
    then show ?thesis by (simp add: dot_def)
  next
    case (Cons z w)
    with Cons.IH [of w] show ?thesis by (simp add: dot_def)
  qed
qed

lemma dot_scale_left: "dot (map (\<lambda>x. c * x) u) v = c * dot u v"
proof (induction u arbitrary: v)
  case Nil
  show ?case by (simp add: dot_def)
next
  case (Cons x u)
  show ?case
  proof (cases v)
    case Nil
    then show ?thesis by (simp add: dot_def)
  next
    case (Cons z w)
    with Cons.IH [of w] show ?thesis by (simp add: dot_def algebra_simps)
  qed
qed

lemma matmul_T_nth:
  "i < length X1 \<Longrightarrow> j < length X2 \<Longrightarrow> matmul_T X1 X2 ! i ! j = dot (X1 ! i) (X2 ! j)"
  by (simp add: matmul_T_def)

lemma rbf_entry:
  assumes "i < length X" "j < length X"
  shows "map2 (\<lambda>s1 row. map2 (\<lambda>s2 d. exp (- g * (s1 + s2 - d))) (sq_norms X) row)
              (sq_norms X) (matmul_T (scale 2 X) X) ! i ! j
         = exp (- g * (sq_norms X ! i + sq_norms X ! j - 2 * dot (X ! i) (X ! j)))"
proof -
  have row: "matmul_T (scale 2 X) X ! i = map (\<lambda>v. dot (map (\<lambda>x. 2 * x) (X ! i)) v) X"
    using assms(1) by (simp add: matmul_T_def scale_def)
  show ?thesis
    using assms by (simp add: row sq_norms_def matmul_T_def scale_def dot_scale_left)
qed

text \<open>
  C9. For each of the three kernels and every matrix X, \<open>_kernel(X, X)\<close> returns a square
  matrix K with \<open>K[i,j] = K[j,i]\<close> for all indices i and j (over the reals).
\<close>

theorem kernel_matrix_symmetric:
  assumes "kernel m \<in> {''linear'', ''poly'', ''rbf''}"
  shows "\<exists>K. kernel_fn m X (Some X) = Inr K \<and> length K = length X \<and>
             (\<forall>i<length X. \<forall>j<length X. K ! i ! j = K ! j ! i)"
proof -
  consider "kernel m = ''linear''" | "kernel m = ''poly''" | "kernel m = ''rbf''"
    using assms by auto
  then show ?thesis
  proof cases
    case 1
    then show ?thesis
      by (simp add: kernel_fn_def matmul_T_def dot_commute)
  next
    case 2
    then show ?thesis
      by (simp add: kernel_fn_def matmul_T_def dot_commute [of "X ! _" "X ! _"])
  next
    case 3
    let ?K = "map2 (\<lambda>s1 row. map2 (\<lambda>s2 d. exp (- gamma m * (s1 + s2 - d))) (sq_norms X) row)
                   (sq_norms X) (matmul_T (scale 2 X) X)"
    have K: "kernel_fn m X (Some X) = Inr ?K"
      using 3 by (simp add: kernel_fn_def)
    have len: "length ?K = length X"
      by (simp add: sq_norms_def matmul_T_def scale_def)
    have sym: "?K ! i ! j = ?K ! j ! i" if "i < length X" "j < length X" for i j
      unfolding rbf_entry [OF that] rbf_entry [OF that(2) that(1)]
      by (simp add: dot_commute [of "X ! i" "X ! j"] add.commute)
    from K len sym show ?thesis by blast
  qed
qed

theorem kernel_matrix_symmetric_witness:
  "kernel (CustomSVM ''linear'' 1 1 3 1) \<in> {''linear'', ''poly'', ''rbf''} \<and>
   (\<exists>K. kernel_fn (CustomSVM ''linear'' 1 1 3 1) [[1, 2], [3, 4]] (Some [[1, 2], [3, 4]]) = Inr K \<and>
        length K = length [[1, 2], [3, 4 :: real]] \<and>
        (\<forall>i<length [[1, 2], [3, 4 :: real]]. \<forall>j<length [[1, 2], [3, 4 :: real]].
            K ! i ! j = K ! j ! i))"
proof -
  have h: "kernel (CustomSVM ''linear'' 1 1 3 1) \<in> {''linear'', ''poly'', ''rbf''}"
    by (simp add: CustomSVM_def)
  from kernel_matrix_symmetric [OF h, of "[[1, 2], [3, 4]]"] h show ?thesis by blast
qed

text \<open>
  C6. For every kernel name other than \<open>linear\<close>, \<open>poly\<close> and \<open>rbf\<close>, evaluating the kernel
  raises ValueError "Unknown kernel type", and so does \<open>fit\<close>, for every training set; no
  kernel matrix is produced and no support vectors are stored.
\<close>

theorem unknown_kernel_raises:
  assumes "kernel m \<notin> {''linear'', ''poly'', ''rbf''}"
  shows "kernel_fn m X1 X2 = Inl (ValueError ''Unknown kernel type'') \<and>
         (\<exists>m' s'. fit m s X y max_iter tol rng pos
                     = Some (Inl (ValueError ''Unknown kernel type''), m', pos, s') \<and>
                   support_vectors m' = support_vectors m)"
  using assms by (simp add: kernel_fn_def fit_def ndarray_copy_def Let_def)

theorem unknown_kernel_raises_witness:
  "kernel (CustomSVM ''unknown'' 1 1 3 1) \<notin> {''linear'', ''poly'', ''rbf''} \<and>
   kernel_fn (CustomSVM ''unknown'' 1 1 3 1) [[0], [1]] (Some [[0], [1]])
     = Inl (ValueError ''Unknown kernel type'') \<and>
   (\<exists>m' s'. fit (CustomSVM ''unknown'' 1 1 3 1) [[0, 1]] [[0], [1]] 0 1000 (1 / 1000) alternating 0
               = Some (Inl (ValueError ''Unknown kernel type''), m', 0, s') \<and>
             support_vectors m' = support_vectors (CustomSVM ''unknown'' 1 1 3 1))"
proof -
  have h: "kernel (CustomSVM ''unknown'' 1 1 3 1) \<notin> {''linear'', ''poly'', ''rbf''}"
    by (simp add: CustomSVM_def)
  from unknown_kernel_raises [OF h] h show ?thesis by blast
qed

section \<open>The trainer: what fit computes\<close>

lemma kernel_fn_training_fields:
  "kernel_fn (m\<lparr>X_train := xt, y_train := yt, alpha := al, b := bi\<rparr>) X1 X2 = kernel_fn m X1 X2"
  by (cases X2) (simp_all add: kernel_fn_def)

lemma fit_unfold:
  "fit m s X y max_iter tol rng pos =
     (case kernel_fn m X (Some X) of
        Inl e \<Rightarrow>
          Some (Inl e,
                m\<lparr>X_train := Some X, y_train := Some (relabel (s ! y)),
                  alpha := Some (replicate (length X) 0), b := 0\<rparr>,
                pos, s @ [relabel (s ! y)])
      | Inr K \<Rightarrow>
          if length (s ! y) \<noteq> length X then
            (case label_shape_error
                    (m\<lparr>X_train := Some X, y_train := Some (relabel (s ! y)),
                       alpha := Some (replicate (length X) 0), b := 0\<rparr>)
                    X (relabel (s ! y)) max_iter tol rng pos of
               None \<Rightarrow> None
             | Some (e, m2, p) \<Rightarrow> Some (Inl e, m2, p, s @ [relabel (s ! y)]))
          else
            (case smo_loop (C m) tol rng (relabel (s ! y)) K (length X) (nat max_iter)
                    (smo_init (length X) pos) of
               None \<Rightarrow> None
             | Some st \<Rightarrow>
                 Some (Inr (),
                       m\<lparr>X_train := Some X, b := st_b st,
                         support_vectors :=
                           Some (mask_index (map (\<lambda>v. v > 1 / 100000) (st_alpha st)) X),
                         alpha :=
                           Some (mask_index (map (\<lambda>v. v > 1 / 100000) (st_alpha st)) (st_alpha st)),
                         y_train :=
                           Some (mask_index (map (\<lambda>v. v > 1 / 100000) (st_alpha st))
                                   (relabel (s ! y)))\<rparr>,
                       st_pos st, s @ [relabel (s ! y)])))"
  by (simp add: fit_def ndarray_copy_def setitem_eq_def relabel_def Let_def
      kernel_fn_training_fields split: sum.split option.split)

text \<open>
  C10. \<open>fit\<close> leaves the caller's label array as it was: the store it returns is the
  caller's store with one new array appended, the relabelled copy; the array \<open>y\<close> refers
  to, and every other array of the caller, is unchanged.
\<close>

theorem fit_keeps_callers_labels:
  assumes "y < length s"
    and "fit m s X y max_iter tol rng pos = Some (r, m', p, s')"
  shows "s' = s @ [relabel (s ! y)] \<and> s' ! y = s ! y \<and> (\<forall>a<length s. s' ! a = s ! a)"
proof -
  have "s' = s @ [relabel (s ! y)]"
    using assms(2) unfolding fit_unfold by (auto split: sum.splits option.splits if_splits)
  with assms(1) show ?thesis by (simp add: nth_append)
qed

theorem fit_keeps_callers_labels_witness:
  "(0::nat) < length [[0, 1 :: real]] \<and>
   fit (CustomSVM ''linear'' 1 1 3 1) [[0, 1]] [[0], [1]] 0 1000 (1 / 1000) alternating 0
     = Some (Inr (),
             \<lparr>kernel = ''linear'', C = 1, gamma = 1, degree = 3, coef0 = 1,
              alpha = Some [1, 1], b = - (1 / 2), X_train = Some [[0], [1]],
              y_train = Some [- 1, 1], support_vectors = Some [[0], [1]]\<rparr>,
             Suc 0, [[0, 1], [- 1, 1]]) \<and>
   [[0, 1], [- 1, 1 :: real]] = [[0, 1]] @ [relabel ([[0, 1]] ! 0)] \<and>
   [[0, 1], [- 1, 1 :: real]] ! 0 = [[0, 1]] ! 0"
proof -
  have h: "(0::nat) < length [[0, 1 :: real]]" by simp
  have run: "fit (CustomSVM ''linear'' 1 1 3 1) [[0, 1]] [[0], [1]] 0 1000 (1 / 1000) alternating 0
     = Some (Inr (),
             \<lparr>kernel = ''linear'', C = 1, gamma = 1, degree = 3, coef0 = 1,
              alpha = Some [1, 1], b = - (1 / 2), X_train = Some [[0], [1]],
              y_train = Some [- 1, 1], support_vectors = Some [[0], [1]]\<rparr>,
             Suc 0, [[0, 1], [- 1, 1]])"
    by (simp add: run_simps)
  from fit_keeps_callers_labels [OF h run] h run show ?thesis by blast
qed

text \<open>
  C1. Asked to train on the labels 0 and 2, two distinct values, \<open>fit\<close> rewrites the 0
  and nothing else: the relabelled copy (the second array of the store) is \<open>[-1, 2]\<close>,
  these are the labels the loop computes with, and \<open>[-1, 2]\<close> are the labels kept with
  the two support vectors. The label 2 is never turned into 1.
\<close>

theorem fit_labels_zero_two:
  "fit (CustomSVM ''linear'' 1 1 3 1) [[0, 2]] [[0], [1]] 0 1000 (1 / 1000) alternating 0
     = Some (Inr (),
             \<lparr>kernel = ''linear'', C = 1, gamma = 1, degree = 3, coef0 = 1,
              alpha = Some [2, 1], b = - (1 / 2), X_train = Some [[0], [1]],
              y_train = Some [- 1, 2], support_vectors = Some [[0], [1]]\<rparr>,
             1, [[0, 2], [- 1, 2]])"
  by (simp add: run_simps)

section \<open>The predictor before training\<close>

text \<open>
  C5, as the code has it. On a freshly constructed model \<open>decision_function\<close> and
  \<open>predict\<close> never return a value, whatever X is: they raise AttributeError for the
  kernels \<open>linear\<close> and \<open>poly\<close>, TypeError for \<open>rbf\<close>, and ValueError "Unknown kernel type"
  for any other kernel name. The failure comes from \<open>self.support_vectors\<close> being
  \<open>None\<close> inside \<open>_kernel\<close>; no check of its own guards the predictor.
\<close>

theorem predict_before_fit:
  "decision_function (CustomSVM k c g d c0) X
     = Inl (if k = ''linear'' \<or> k = ''poly'' then AttributeError
            else if k = ''rbf'' then TypeError
            else ValueError ''Unknown kernel type'') \<and>
   predict (CustomSVM k c g d c0) X = decision_function (CustomSVM k c g d c0) X"
  by (simp add: predict_def decision_function_def kernel_fn_def CustomSVM_def)

theorem predict_before_fit_witness:
  "decision_function (CustomSVM ''poly'' 1 (1 / 10) 3 1) [[0], [1]] = Inl AttributeError \<and>
   predict (CustomSVM ''poly'' 1 (1 / 10) 3 1) [[0], [1]] = Inl AttributeError"
  using predict_before_fit [of "''poly''" 1 "1 / 10" 3 1 "[[0], [1]]"] by simp

text \<open>
  The specification names one condition here, ModelNotFitted. On fresh models the failure
  is three different exceptions, and for the kernel name "unknown" it is the very
  exception of an unsupported kernel.
\<close>

theorem predict_before_fit_counterexample:
  "predict (CustomSVM ''unknown'' 1 1 3 1) [[0], [1]] = Inl (ValueError ''Unknown kernel type'') \<and>
   predict (CustomSVM ''linear'' 1 1 3 1) [[0], [1]] = Inl AttributeError \<and>
   predict (CustomSVM ''rbf'' 1 1 3 1) [[0], [1]] = Inl TypeError"
  by (simp add: predict_def decision_function_def kernel_fn_def CustomSVM_def)

section \<open>The search for a partner\<close>

lemma kernel_fn_supported:
  "kernel m \<in> {''linear'', ''poly'', ''rbf''} \<Longrightarrow> \<exists>K. kernel_fn m X1 (Some X2) = Inr K"
  by (auto simp: kernel_fn_def)

text \<open>What a returned partner is: a draw that differs from i, taken at a later position.\<close>

lemma pick_partner_Some:
  "pick_partner rng i pos = Some jp \<Longrightarrow> fst jp \<noteq> i \<and> pos < snd jp \<and> fst jp = rng (snd jp - 1)"
proof (induction rule: pick_partner.raw_induct [rotated 1, consumes 1])
  case (1 f rng i pos jp)
  show ?case
  proof (cases "rng pos = i")
    case True
    with 1(2) have "f rng i (Suc pos) = Some jp" by simp
    from 1(1) [OF this] show ?thesis by simp
  next
    case False
    with 1(2) show ?thesis by auto
  qed
qed

text \<open>With a single sample every draw is 0, the only index, and the search for a partner
  of sample 0 never ends.\<close>

lemma pick_partner_stuck: "\<forall>k. rng k = i \<Longrightarrow> pick_partner rng i pos = None"
proof (rule ccontr)
  assume all: "\<forall>k. rng k = i" and "pick_partner rng i pos \<noteq> None"
  then obtain jp where "pick_partner rng i pos = Some jp" by auto
  from pick_partner_Some [OF this] all show False by auto
qed

lemma fit_single_sample_never_returns:
  assumes "kernel m = ''linear''" "0 < C m" "0 < max_iter" "\<forall>k. rng k < 1"
    and "s ! y = [l]" "tol < 1" "l = 0 \<or> l = 1 \<or> l = - 1"
  shows "fit m s [x] y max_iter tol rng pos = None"
proof -
  have stuck: "pick_partner rng 0 pos = None"
    using assms(4) by (intro pick_partner_stuck) simp
  obtain k where k: "nat max_iter = Suc k"
    using assms(3) by (cases "nat max_iter") auto
  show ?thesis
    using assms(1,2,5,6,7) stuck
    by (auto simp: fit_unfold kernel_fn_def k relabel_def smo_init_def matmul_T_def
        error_at_def column_def dot_def kkt_violated_def)
qed

section \<open>The step that changes too little\<close>

text \<open>
  What the step does when the clipped new value of \<open>alpha[j]\<close> differs from the old one
  by less than 1e-5: \<open>alpha[i]\<close>, every other multiplier, the bias and the count of
  changes are as before, and \<open>alpha[j]\<close> holds the clipped new value, which the code
  has stored before the test.
\<close>

lemma negligible_change_step:
  assumes "j < length (st_alpha st)"
    and "bounds Cc (ys ! i) (ys ! j) (st_alpha st ! i) (st_alpha st ! j) = (L, H)"
    and "L \<noteq> H"
    and "eta = 2 * K ! i ! j - K ! i ! i - K ! j ! j"
    and "eta < 0"
    and "v = clip (st_alpha st ! j - ys ! j * (Ei - error_at K ys (st_alpha st) (st_b st) j) / eta) L H"
    and "\<bar>v - st_alpha st ! j\<bar> < 1 / 100000"
  shows "pair_update Cc ys K i j Ei st = st\<lparr>st_alpha := (st_alpha st)[j := v]\<rparr> \<and>
         st_b (pair_update Cc ys K i j Ei st) = st_b st \<and>
         st_changed (pair_update Cc ys K i j Ei st) = st_changed st \<and>
         (\<forall>k. k \<noteq> j \<longrightarrow> st_alpha (pair_update Cc ys K i j Ei st) ! k = st_alpha st ! k) \<and>
         st_alpha (pair_update Cc ys K i j Ei st) ! j = v"
proof -
  have eq: "pair_update Cc ys K i j Ei st = st\<lparr>st_alpha := (st_alpha st)[j := v]\<rparr>"
    using assms by (simp add: pair_update_def Let_def)
  show ?thesis
    unfolding eq using assms(1) by simp
qed

text \<open>The two other skips, equal bounds and a curvature that is not negative, leave the
  whole state as it is.\<close>

lemma other_skips_change_nothing:
  assumes "bounds Cc (ys ! i) (ys ! j) (st_alpha st ! i) (st_alpha st ! j) = (L, H)"
    and "L = H \<or> 0 \<le> 2 * K ! i ! j - K ! i ! i - K ! j ! j"
  shows "pair_update Cc ys K i j Ei st = st"
  using assms by (auto simp: pair_update_def Let_def)

text \<open>
  C3. In the first inner step of \<open>fit\<close> on the rows (0) and (1000) with the labels -1 and
  1, the linear kernel and C = 1, the clipped new value of \<open>alpha[1]\<close> is 2e-6, less than
  1e-5 away from the old value 0. The step is not counted and leaves \<open>alpha[0]\<close> and the
  bias alone, but \<open>alpha[1]\<close> is 2e-6 after it, not 0: the step is not a no-op.
\<close>

theorem negligible_change_moves_alpha_j:
  "kernel_fn (CustomSVM ''linear'' 1 1 3 1) [[0], [1000]] (Some [[0], [1000]])
     = Inr [[0, 0], [0, 1000000]] \<and>
   smo_pass 1 (1 / 1000) alternating [- 1, 1] [[0, 0], [0, 1000000]] [0]
      \<lparr>st_alpha = [0, 0], st_b = 0, st_pos = 0, st_changed = 0, st_trace = []\<rparr>
     = Some \<lparr>st_alpha = [0, 1 / 500000], st_b = 0, st_pos = 1, st_changed = 0, st_trace = []\<rparr>"
  by (simp add: run_simps)

section \<open>Termination of the optimisation loop\<close>

lemma pick_partner_returns:
  "rng (pos + d) \<noteq> i \<Longrightarrow> \<exists>jp. pick_partner rng i pos = Some jp"
proof (induction d arbitrary: pos)
  case 0
  then show ?case by (simp add: pick_partner_hit)
next
  case (Suc d)
  show ?case
  proof (cases "rng pos = i")
    case True
    from Suc.prems have "rng (Suc pos + d) \<noteq> i" by simp
    from Suc.IH [OF this] True show ?thesis by (simp add: pick_partner_miss)
  next
    case False
    then show ?thesis by (simp add: pick_partner_hit)
  qed
qed

lemma pair_update_trace: "st_trace (pair_update Cc ys K i j Ei st) = st_trace st"
  by (simp add: pair_update_def Let_def split: prod.split)

lemma pair_update_length:
  "length (st_alpha (pair_update Cc ys K i j Ei st)) = length (st_alpha st)"
  by (simp add: pair_update_def Let_def split: prod.split)

lemma smo_pass_returns:
  assumes "\<forall>i\<in>set idx. \<forall>k. \<exists>d. rng (k + d) \<noteq> i"
  shows "\<exists>st'. smo_pass Cc tol rng ys K idx st = Some st'"
  using assms
proof (induction idx arbitrary: st)
  case Nil
  show ?case by simp
next
  case (Cons i rest)
  then have rest: "\<And>st. \<exists>st'. smo_pass Cc tol rng ys K rest st = Some st'" by simp
  from Cons.prems obtain d where "rng (st_pos st + d) \<noteq> i" by fastforce
  from pick_partner_returns [of rng "st_pos st" d i, OF this] obtain j p where "pick_partner rng i (st_pos st) = Some (j, p)"
    by fastforce
  with rest show ?case by (simp add: Let_def)
qed

lemma smo_pass_trace:
  "smo_pass Cc tol rng ys K idx st = Some st' \<Longrightarrow> st_trace st' = st_trace st"
proof (induction idx arbitrary: st)
  case Nil
  then show ?case by simp
next
  case (Cons i rest)
  then show ?case
    by (fastforce simp: Let_def pair_update_trace split: if_splits option.splits dest: Cons.IH)
qed

lemma smo_pass_length:
  "smo_pass Cc tol rng ys K idx st = Some st' \<Longrightarrow> length (st_alpha st') = length (st_alpha st)"
proof (induction idx arbitrary: st)
  case Nil
  then show ?case by simp
next
  case (Cons i rest)
  then show ?case
    by (fastforce simp: Let_def pair_update_length split: if_splits option.splits dest: Cons.IH)
qed

lemma smo_loop_length:
  "smo_loop Cc tol rng ys K n k st = Some st' \<Longrightarrow> length (st_alpha st') = length (st_alpha st)"
proof (induction k arbitrary: st)
  case 0
  then show ?case by simp
next
  case (Suc k)
  then show ?case
    by (fastforce simp: Let_def split: if_splits option.splits dest: Suc.IH smo_pass_length)
qed

lemma smo_loop_returns:
  assumes fair: "\<forall>i<n. \<forall>k. \<exists>d. rng (k + d) \<noteq> i"
  shows "\<exists>st' t. smo_loop Cc tol rng ys K n k st = Some st' \<and>
                 st_trace st' = st_trace st @ t \<and> length t \<le> k \<and>
                 (\<forall>c\<in>set (butlast t). 0 < c) \<and>
                 (length t < k \<longrightarrow> t \<noteq> [] \<and> last t = 0)"
proof (induction k arbitrary: st)
  case 0
  show ?case by simp
next
  case (Suc k)
  from fair have "\<forall>i\<in>set [0..<n]. \<forall>k. \<exists>d. rng (k + d) \<noteq> i" by simp
  from smo_pass_returns [OF this]
  obtain st1 where st1: "smo_pass Cc tol rng ys K [0..<n] (st\<lparr>st_changed := 0\<rparr>) = Some st1"
    by blast
  have tr1: "st_trace st1 = st_trace st"
    using smo_pass_trace [OF st1] by simp
  let ?st2 = "st1\<lparr>st_trace := st_trace st1 @ [st_changed st1]\<rparr>"
  show ?case
  proof (cases "st_changed st1 = 0")
    case True
    have "smo_loop Cc tol rng ys K n (Suc k) st = Some ?st2"
      using st1 True by (simp add: Let_def)
    moreover have "st_trace ?st2 = st_trace st @ [0]"
      using tr1 True by simp
    ultimately show ?thesis by (intro exI [of _ ?st2] exI [of _ "[0]"]) simp
  next
    case False
    from Suc.IH [of ?st2] obtain st' t where
      run: "smo_loop Cc tol rng ys K n k ?st2 = Some st'" and
      tr: "st_trace st' = st_trace ?st2 @ t" and
      len: "length t \<le> k" and
      pos: "\<forall>c\<in>set (butlast t). 0 < c" and
      early: "length t < k \<longrightarrow> t \<noteq> [] \<and> last t = 0"
      by blast
    have "smo_loop Cc tol rng ys K n (Suc k) st = Some st'"
      using st1 False run by (simp add: Let_def)
    moreover have "st_trace st' = st_trace st @ (st_changed st1 # t)"
      using tr tr1 by simp
    moreover have "\<forall>c\<in>set (butlast (st_changed st1 # t)). 0 < c"
      using pos False by (cases t) auto
    moreover have "length (st_changed st1 # t) < Suc k \<longrightarrow>
                     st_changed st1 # t \<noteq> [] \<and> last (st_changed st1 # t) = 0"
      using early by auto
    ultimately show ?thesis
      using len by (intro exI [of _ st'] exI [of _ "st_changed st1 # t"]) simp
  qed
qed

lemma alternating_fair: "\<exists>d. alternating (k + d) \<noteq> i"
proof (cases "alternating k = i")
  case True
  then have "alternating (k + 1) \<noteq> i" by (auto simp: alternating_def)
  then show ?thesis by blast
next
  case False
  then have "alternating (k + 0) \<noteq> i" by simp
  then show ?thesis by blast
qed

lemma label_shape_error_returns:
  assumes "\<forall>i<length X. \<forall>k. \<exists>d. rng (k + d) \<noteq> i"
  shows "\<exists>r. label_shape_error m1 X ys max_iter tol rng pos = Some r"
proof (cases "X = []")
  case True
  then show ?thesis by (simp add: label_shape_error_def)
next
  case False
  with assms obtain d where "rng (pos + d) \<noteq> 0" by fastforce
  from pick_partner_returns [of rng pos d 0, OF this]
  obtain j p where "pick_partner rng 0 pos = Some (j, p)" by fastforce
  then show ?thesis by (simp add: label_shape_error_def Let_def)
qed

lemma zip_as_indices: "length xs = length a \<Longrightarrow> zip xs a = map (\<lambda>k. (xs ! k, a ! k)) [0..<length a]"
  by (rule nth_equalityI) simp_all

lemma mask_index_filter:
  "length a = length xs \<Longrightarrow>
   mask_index (map P a) xs = map fst (filter (\<lambda>(x, v). P v) (zip xs a))"
  by (induction a xs rule: list_induct2) (simp_all add: mask_index_def)

lemma mask_index_self: "mask_index (map P a) a = filter P a"
  by (induction a) (simp_all add: mask_index_def)

lemma mask_index_retained:
  assumes "length xs = length a"
  shows "mask_index (map (\<lambda>v. v > 1 / 100000) a) xs = retained a xs"
proof -
  have "mask_index (map (\<lambda>v. v > 1 / 100000) a) xs
      = map fst (filter (\<lambda>(x, v). 1 / 100000 < v) (zip xs a))"
    by (rule mask_index_filter) (simp add: assms)
  also have "\<dots> = map fst (filter (\<lambda>(x, v). 1 / 100000 < v)
                        (map (\<lambda>k. (xs ! k, a ! k)) [0..<length a]))"
    unfolding zip_as_indices [OF assms] ..
  also have "\<dots> = retained a xs"
    unfolding retained_def filter_map by (simp add: comp_def case_prod_beta)
  finally show ?thesis .
qed

text \<open>What a call of \<open>fit\<close> leaves in the model when the loop ends in the state \<open>st\<close>.\<close>

lemma fit_from_loop:
  assumes "kernel_fn m X (Some X) = Inr K" and "length (s ! y) = length X"
    and "smo_loop (C m) tol rng (relabel (s ! y)) K (length X) (nat max_iter)
           (smo_init (length X) pos) = Some st"
  shows "fit m s X y max_iter tol rng pos
       = Some (Inr (),
               m\<lparr>X_train := Some X, b := st_b st,
                 support_vectors := Some (retained (st_alpha st) X),
                 alpha := Some (retained (st_alpha st) (st_alpha st)),
                 y_train := Some (retained (st_alpha st) (relabel (s ! y)))\<rparr>,
               st_pos st, s @ [relabel (s ! y)])"
proof -
  have len: "length (st_alpha st) = length X"
    using smo_loop_length [OF assms(3)] by (simp add: smo_init_def)
  have r1: "mask_index (map (\<lambda>v. v > 1 / 100000) (st_alpha st)) X = retained (st_alpha st) X"
    using len by (intro mask_index_retained) simp
  have r2: "mask_index (map (\<lambda>v. v > 1 / 100000) (st_alpha st)) (st_alpha st)
          = retained (st_alpha st) (st_alpha st)"
    by (intro mask_index_retained) simp
  have r3: "mask_index (map (\<lambda>v. v > 1 / 100000) (st_alpha st)) (relabel (s ! y))
          = retained (st_alpha st) (relabel (s ! y))"
    using len assms(2) by (intro mask_index_retained) (simp add: relabel_def)
  show ?thesis
    unfolding fit_unfold assms(1) r1 [symmetric] r2 [symmetric] r3 [symmetric]
    using assms(2,3) by simp
qed

text \<open>
  C8. Let the random sequence never stay on one sample index for ever (each index i of
  a sample has, after every position, a later draw that differs from i). Then every call
  of \<open>fit\<close> returns. When the kernel is supported and there is one label per row, what
  \<open>fit\<close> returns is what the optimisation loop, allowed \<open>max_iter\<close> passes, ends with:
  the loop made at most \<open>max_iter\<close> passes, every pass before its last one changed
  something, and if it made fewer than \<open>max_iter\<close> passes its last pass changed nothing.
\<close>

theorem fit_terminates:
  assumes "\<forall>i<length X. \<forall>k. \<exists>d. rng (k + d) \<noteq> i"
  shows "(\<exists>r. fit m s X y max_iter tol rng pos = Some r) \<and>
         (\<forall>K. kernel_fn m X (Some X) = Inr K \<and> length (s ! y) = length X \<longrightarrow>
            (\<exists>st. smo_loop (C m) tol rng (relabel (s ! y)) K (length X) (nat max_iter)
                     (smo_init (length X) pos) = Some st \<and>
                  length (st_trace st) \<le> nat max_iter \<and>
                  (\<forall>c\<in>set (butlast (st_trace st)). 0 < c) \<and>
                  (length (st_trace st) < nat max_iter \<longrightarrow>
                     st_trace st \<noteq> [] \<and> last (st_trace st) = 0) \<and>
                  fit m s X y max_iter tol rng pos
                    = Some (Inr (),
                            m\<lparr>X_train := Some X, b := st_b st,
                              support_vectors := Some (retained (st_alpha st) X),
                              alpha := Some (retained (st_alpha st) (st_alpha st)),
                              y_train := Some (retained (st_alpha st) (relabel (s ! y)))\<rparr>,
                            st_pos st, s @ [relabel (s ! y)])))"
proof -
  have loop: "\<exists>st. smo_loop (C m) tol rng (relabel (s ! y)) K (length X) (nat max_iter)
                     (smo_init (length X) pos) = Some st \<and>
                  length (st_trace st) \<le> nat max_iter \<and>
                  (\<forall>c\<in>set (butlast (st_trace st)). 0 < c) \<and>
                  (length (st_trace st) < nat max_iter \<longrightarrow>
                     st_trace st \<noteq> [] \<and> last (st_trace st) = 0)" for K
    using smo_loop_returns [OF assms, of "C m" tol "relabel (s ! y)" K "nat max_iter"
        "smo_init (length X) pos"]
    by (auto simp: smo_init_def)
  have valid: "\<exists>st. smo_loop (C m) tol rng (relabel (s ! y)) K (length X) (nat max_iter)
                     (smo_init (length X) pos) = Some st \<and>
                  length (st_trace st) \<le> nat max_iter \<and>
                  (\<forall>c\<in>set (butlast (st_trace st)). 0 < c) \<and>
                  (length (st_trace st) < nat max_iter \<longrightarrow>
                     st_trace st \<noteq> [] \<and> last (st_trace st) = 0) \<and>
                  fit m s X y max_iter tol rng pos
                    = Some (Inr (),
                            m\<lparr>X_train := Some X, b := st_b st,
                              support_vectors := Some (retained (st_alpha st) X),
                              alpha := Some (retained (st_alpha st) (st_alpha st)),
                              y_train := Some (retained (st_alpha st) (relabel (s ! y)))\<rparr>,
                            st_pos st, s @ [relabel (s ! y)])"
    if "kernel_fn m X (Some X) = Inr K" "length (s ! y) = length X" for K
  proof -
    from loop [of K] obtain st where
      st: "smo_loop (C m) tol rng (relabel (s ! y)) K (length X) (nat max_iter)
             (smo_init (length X) pos) = Some st" and
      tr: "length (st_trace st) \<le> nat max_iter" "\<forall>c\<in>set (butlast (st_trace st)). 0 < c"
        "length (st_trace st) < nat max_iter \<longrightarrow> st_trace st \<noteq> [] \<and> last (st_trace st) = 0"
      by blast
    from fit_from_loop [OF that st] st tr show ?thesis by blast
  qed
  have returns: "\<exists>r. fit m s X y max_iter tol rng pos = Some r"
  proof (cases "kernel_fn m X (Some X)")
    case (Inl e)
    then show ?thesis by (simp add: fit_unfold)
  next
    case (Inr K)
    show ?thesis
    proof (cases "length (s ! y) = length X")
      case True
      from valid [OF Inr True] show ?thesis by blast
    next
      case False
      from label_shape_error_returns [OF assms]
      obtain e m2 p where
        "label_shape_error
           (m\<lparr>X_train := Some X, y_train := Some (relabel (s ! y)),
              alpha := Some (replicate (length X) 0), b := 0\<rparr>)
           X (relabel (s ! y)) max_iter tol rng pos = Some (e, m2, p)"
        by (metis prod_cases3)
      with Inr False show ?thesis by (simp add: fit_unfold)
    qed
  qed
  from returns valid show ?thesis by blast
qed

theorem fit_terminates_witness:
  "(\<exists>r. fit (CustomSVM ''linear'' 1 1 3 1) [[0, 1, 1]] [[0], [1], [1000]] 0 1000 (1 / 1000) alternating 0
           = Some r) \<and>
   (\<exists>st. smo_loop (C (CustomSVM ''linear'' 1 1 3 1)) (1 / 1000) alternating (relabel ([[0, 1, 1]] ! 0))
             [[0, 0, 0], [0, 1, 1000], [0, 1000, 1000000]] (length [[0], [1], [1000 :: real]])
             (nat 1000) (smo_init (length [[0], [1], [1000 :: real]]) 0) = Some st \<and>
          length (st_trace st) \<le> nat 1000 \<and>
          (\<forall>c\<in>set (butlast (st_trace st)). 0 < c) \<and>
          (length (st_trace st) < nat 1000 \<longrightarrow> st_trace st \<noteq> [] \<and> last (st_trace st) = 0) \<and>
          fit (CustomSVM ''linear'' 1 1 3 1) [[0, 1, 1]] [[0], [1], [1000]] 0 1000 (1 / 1000) alternating 0
            = Some (Inr (),
                    (CustomSVM ''linear'' 1 1 3 1)
                      \<lparr>X_train := Some [[0], [1], [1000]], b := st_b st,
                       support_vectors := Some (retained (st_alpha st) [[0], [1], [1000]]),
                       alpha := Some (retained (st_alpha st) (st_alpha st)),
                       y_train := Some (retained (st_alpha st) (relabel ([[0, 1, 1]] ! 0)))\<rparr>,
                    st_pos st, [[0, 1, 1]] @ [relabel ([[0, 1, 1]] ! 0)]))"
proof -
  have fair: "\<forall>i<length [[0], [1], [1000 :: real]]. \<forall>k. \<exists>d. alternating (k + d) \<noteq> i"
    using alternating_fair by blast
  have K: "kernel_fn (CustomSVM ''linear'' 1 1 3 1) [[0], [1], [1000]] (Some [[0], [1], [1000]])
             = Inr [[0, 0, 0], [0, 1, 1000], [0, 1000, 1000000]]"
    by (simp add: kernel_fn_def CustomSVM_def matmul_T_def dot_def)
  have len: "length ([[0, 1, 1 :: real]] ! 0) = length [[0], [1], [1000 :: real]]"
    by simp
  from fit_terminates [OF fair, of "CustomSVM ''linear'' 1 1 3 1" "[[0, 1, 1]]" 0 1000 "1 / 1000" 0]
    K len
  show ?thesis by blast
qed

section \<open>The multipliers and the interval from 0 to C\<close>

lemma box_arith:
  assumes "yi = 1 \<or> yi = - 1" "yj = 1 \<or> yj = - 1"
    and "0 \<le> ai" "ai \<le> Cc" "0 \<le> aj" "aj \<le> Cc"
    and "bounds Cc yi yj ai aj = (L, H)"
  shows "0 \<le> clip x L H \<and> clip x L H \<le> Cc \<and>
         0 \<le> ai + yi * yj * (aj - clip x L H) \<and> ai + yi * yj * (aj - clip x L H) \<le> Cc"
proof (cases "yi = yj")
  case True
  with assms(1) have one: "yi * yj = 1" by auto
  from True assms(7) have "L = max 0 (ai + aj - Cc)" "H = min Cc (ai + aj)"
    by (simp_all add: bounds_def)
  with assms(3-6) show ?thesis
    unfolding one clip_def by (auto simp: min_def max_def)
next
  case False
  with assms(1,2) have one: "yi * yj = - 1" by auto
  from False assms(7) have "L = max 0 (aj - ai)" "H = min Cc (Cc + aj - ai)"
    by (simp_all add: bounds_def)
  with assms(3-6) show ?thesis
    unfolding one clip_def by (auto simp: min_def max_def)
qed

lemma in_box_iff: "in_box Cc a \<longleftrightarrow> (\<forall>v\<in>set a. 0 \<le> v \<and> v \<le> Cc)"
  by (simp add: in_box_def list_all_iff)

lemma in_box_update: "in_box Cc a \<Longrightarrow> 0 \<le> v \<Longrightarrow> v \<le> Cc \<Longrightarrow> in_box Cc (a[k := v])"
  unfolding in_box_iff using set_update_subset_insert [of a k v] by auto

lemma pair_update_box:
  assumes lab: "ys ! i = 1 \<or> ys ! i = - 1" "ys ! j = 1 \<or> ys ! j = - 1"
    and idx: "i < length (st_alpha st)" "j < length (st_alpha st)"
    and box: "in_box Cc (st_alpha st)"
  shows "in_box Cc (st_alpha (pair_update Cc ys K i j Ei st))"
proof -
  let ?a = "st_alpha st"
  obtain L H where LH: "bounds Cc (ys ! i) (ys ! j) (?a ! i) (?a ! j) = (L, H)"
    by (cases "bounds Cc (ys ! i) (ys ! j) (?a ! i) (?a ! j)")
  from box idx have ai: "0 \<le> ?a ! i" "?a ! i \<le> Cc" and aj: "0 \<le> ?a ! j" "?a ! j \<le> Cc"
    by (auto simp: in_box_iff)
  define eta where "eta = 2 * K ! i ! j - K ! i ! i - K ! j ! j"
  define v where "v = clip (?a ! j - ys ! j * (Ei - error_at K ys ?a (st_b st) j) / eta) L H"
  define w where "w = ?a ! i + ys ! i * ys ! j * (?a ! j - v)"
  from box_arith [OF lab ai aj LH] have v: "0 \<le> v" "v \<le> Cc" and w: "0 \<le> w" "w \<le> Cc"
    by (simp_all add: v_def w_def)
  have box1: "in_box Cc (?a[j := v])"
    using box v by (rule in_box_update)
  have box2: "in_box Cc (?a[j := v, i := w])"
    using box1 w by (rule in_box_update)
  have "st_alpha (pair_update Cc ys K i j Ei st) = ?a \<or>
        st_alpha (pair_update Cc ys K i j Ei st) = ?a[j := v] \<or>
        st_alpha (pair_update Cc ys K i j Ei st) = ?a[j := v, i := w]"
    using idx(2) by (simp add: pair_update_def Let_def LH eta_def [symmetric] v_def [symmetric] w_def [symmetric])
  with box box1 box2 show ?thesis by auto
qed

lemma smo_pass_box:
  assumes lab: "\<forall>l\<in>set ys. l = 1 \<or> l = - 1" and len: "length ys = n"
    and draws: "\<forall>k. rng k < n"
  shows "smo_pass Cc tol rng ys K idx st = Some st' \<Longrightarrow> \<forall>i\<in>set idx. i < n \<Longrightarrow>
         length (st_alpha st) = n \<Longrightarrow> in_box Cc (st_alpha st) \<Longrightarrow> in_box Cc (st_alpha st')"
proof (induction idx arbitrary: st)
  case Nil
  then show ?case by simp
next
  case (Cons i rest)
  let ?Ei = "error_at K ys (st_alpha st) (st_b st) i"
  show ?case
  proof (cases "kkt_violated Cc tol ys (st_alpha st) i ?Ei")
    case False
    with Cons.prems(1) have "smo_pass Cc tol rng ys K rest st = Some st'"
      by (simp add: Let_def)
    from Cons.IH [OF this] Cons.prems show ?thesis by simp
  next
    case True
    with Cons.prems(1) obtain j p where
      pick: "pick_partner rng i (st_pos st) = Some (j, p)" and
      run: "smo_pass Cc tol rng ys K rest (pair_update Cc ys K i j ?Ei (st\<lparr>st_pos := p\<rparr>)) = Some st'"
      by (auto simp: Let_def split: option.splits)
    from pick_partner_Some [OF pick] draws have j: "j < n" by simp
    from Cons.prems(2) have i: "i < n" by simp
    from lab len i j have labs: "ys ! i = 1 \<or> ys ! i = - 1" "ys ! j = 1 \<or> ys ! j = - 1"
      by (metis nth_mem)+
    have "in_box Cc (st_alpha (pair_update Cc ys K i j ?Ei (st\<lparr>st_pos := p\<rparr>)))"
      using labs i j Cons.prems(3,4) by (intro pair_update_box) simp_all
    moreover have "length (st_alpha (pair_update Cc ys K i j ?Ei (st\<lparr>st_pos := p\<rparr>))) = n"
      using Cons.prems(3) by (simp add: pair_update_length)
    ultimately show ?thesis
      using Cons.IH [OF run] Cons.prems(2) by simp
  qed
qed

lemma smo_loop_box:
  assumes lab: "\<forall>l\<in>set ys. l = 1 \<or> l = - 1" and len: "length ys = n"
    and draws: "\<forall>k. rng k < n"
  shows "smo_loop Cc tol rng ys K n k st = Some st' \<Longrightarrow>
         length (st_alpha st) = n \<Longrightarrow> in_box Cc (st_alpha st) \<Longrightarrow> in_box Cc (st_alpha st')"
proof (induction k arbitrary: st)
  case 0
  then show ?case by simp
next
  case (Suc k)
  from Suc.prems(1) obtain st1 where
    st1: "smo_pass Cc tol rng ys K [0..<n] (st\<lparr>st_changed := 0\<rparr>) = Some st1"
    by (auto split: option.splits)
  let ?st2 = "st1\<lparr>st_trace := st_trace st1 @ [st_changed st1]\<rparr>"
  have box1: "in_box Cc (st_alpha st1)"
    using smo_pass_box [OF lab len draws st1] Suc.prems(2,3) by simp
  have len1: "length (st_alpha st1) = n"
    using smo_pass_length [OF st1] Suc.prems(2) by simp
  show ?case
  proof (cases "st_changed st1 = 0")
    case True
    with Suc.prems(1) st1 have "st' = ?st2" by (simp add: Let_def)
    with box1 show ?thesis by simp
  next
    case False
    with Suc.prems(1) st1 have "smo_loop Cc tol rng ys K n k ?st2 = Some st'"
      by (simp add: Let_def)
    from Suc.IH [OF this] box1 len1 show ?thesis by simp
  qed
qed

text \<open>
  In exact arithmetic, with labels that are all 1 or -1 and draws that are sample
  indices, the multipliers stay in the interval from 0 to C: a step on a pair of samples
  keeps them there, and so does the whole loop, whatever the number of passes allowed.
  This is a fact of the real numbers only: the update of \<open>alpha[i]\<close> is not clipped, and
  in double precision its rounding can leave the interval by a unit in the last place.
\<close>

lemma multipliers_stay_in_box:
  assumes "\<forall>l\<in>set ys. l = 1 \<or> l = - 1" and "length ys = n" and "\<forall>k. rng k < n"
    and "length (st_alpha st) = n" and "in_box Cc (st_alpha st)"
  shows "(\<forall>i<n. \<forall>j<n. in_box Cc (st_alpha (pair_update Cc ys K i j Ei st))) \<and>
         (\<forall>st'. smo_loop Cc tol rng ys K n k st = Some st' \<longrightarrow> in_box Cc (st_alpha st'))"
proof -
  have step: "in_box Cc (st_alpha (pair_update Cc ys K i j Ei st))" if "i < n" "j < n" for i j
  proof -
    from assms(1,2) that have "ys ! i = 1 \<or> ys ! i = - 1" "ys ! j = 1 \<or> ys ! j = - 1"
      by (metis nth_mem)+
    then show ?thesis
      using that assms(4,5) by (intro pair_update_box) simp_all
  qed
  have loop: "in_box Cc (st_alpha st')" if "smo_loop Cc tol rng ys K n k st = Some st'" for st'
    using smo_loop_box [OF assms(1-3) that assms(4,5)] .
  from step loop show ?thesis by blast
qed

text \<open>
  C4. On the rows (0) and (1) with the labels 0 and 2, the linear kernel and C = 1, the
  loop computes with the labels -1 and 2. All multipliers are 0 before the first step;
  the step clips \<open>alpha[1]\<close> to 1 and then sets \<open>alpha[0]\<close> to 2. The first pass ends
  with the multipliers 2 and 1, and 2 is outside the interval from 0 to C.
\<close>

theorem multipliers_leave_box:
  "kernel_fn (CustomSVM ''linear'' 1 1 3 1) [[0], [1]] (Some [[0], [1]]) = Inr [[0, 0], [0, 1]] \<and>
   in_box 1 [0, 0] \<and>
   smo_pass 1 (1 / 1000) alternating (relabel [0, 2]) [[0, 0], [0, 1]] [0, 1]
      \<lparr>st_alpha = [0, 0], st_b = 0, st_pos = 0, st_changed = 0, st_trace = []\<rparr>
     = Some \<lparr>st_alpha = [2, 1], st_b = - (1 / 2), st_pos = 1, st_changed = 1, st_trace = []\<rparr> \<and>
   \<not> in_box 1 [2, 1]"
  by (simp add: run_simps relabel_def in_box_def)

section \<open>What fit retains\<close>

lemma retained_self: "retained a a = filter (\<lambda>v. 1 / 100000 < v) a"
proof -
  have "retained a a = mask_index (map (\<lambda>v. v > 1 / 100000) a) a"
    by (rule mask_index_retained [symmetric]) simp
  also have "\<dots> = filter (\<lambda>v. 1 / 100000 < v) a"
    by (rule mask_index_self)
  finally show ?thesis .
qed

text \<open>
  C7, as the code has it. After a call of \<open>fit\<close> that returns, the kernel was supported,
  there was one label per row, and the loop ended in a state \<open>st\<close> with one multiplier
  per row. The model holds exactly the rows, the multipliers and the labels at the
  indices whose multiplier in \<open>st\<close> exceeds 1e-5, in their order, and the bias of \<open>st\<close>;
  the multipliers it holds are those of \<open>st\<close> above 1e-5 and no others.
  \<open>self.X_train\<close> still holds the whole matrix X. Nothing is said of an upper bound.
\<close>

theorem fit_retains_support_vectors:
  assumes "fit m s X y max_iter tol rng pos = Some (Inr (), m', p, s')"
  shows "\<exists>K st. kernel_fn m X (Some X) = Inr K \<and>
           smo_loop (C m) tol rng (relabel (s ! y)) K (length X) (nat max_iter)
             (smo_init (length X) pos) = Some st \<and>
           length (s ! y) = length X \<and> length (st_alpha st) = length X \<and>
           support_vectors m' = Some (retained (st_alpha st) X) \<and>
           alpha m' = Some (retained (st_alpha st) (st_alpha st)) \<and>
           alpha m' = Some (filter (\<lambda>v. 1 / 100000 < v) (st_alpha st)) \<and>
           y_train m' = Some (retained (st_alpha st) (relabel (s ! y))) \<and>
           b m' = st_b st \<and> X_train m' = Some X \<and> p = st_pos st"
proof -
  obtain K where K: "kernel_fn m X (Some X) = Inr K"
    using assms unfolding fit_unfold by (cases "kernel_fn m X (Some X)") simp_all
  have len: "length (s ! y) = length X"
    using assms unfolding fit_unfold K by (auto split: option.splits if_splits)
  obtain st where st: "smo_loop (C m) tol rng (relabel (s ! y)) K (length X) (nat max_iter)
                         (smo_init (length X) pos) = Some st"
    using assms len unfolding fit_unfold K
    by (cases "smo_loop (C m) tol rng (relabel (s ! y)) K (length X) (nat max_iter)
                 (smo_init (length X) pos)") simp_all
  have lena: "length (st_alpha st) = length X"
    using smo_loop_length [OF st] by (simp add: smo_init_def)
  from assms have eq: "m' = m\<lparr>X_train := Some X, b := st_b st,
                 support_vectors := Some (retained (st_alpha st) X),
                 alpha := Some (retained (st_alpha st) (st_alpha st)),
                 y_train := Some (retained (st_alpha st) (relabel (s ! y)))\<rparr>"
    and p: "p = st_pos st"
    unfolding fit_from_loop [OF K len st] by simp_all
  have fields: "support_vectors m' = Some (retained (st_alpha st) X)"
    "alpha m' = Some (retained (st_alpha st) (st_alpha st))"
    "y_train m' = Some (retained (st_alpha st) (relabel (s ! y)))"
    "b m' = st_b st" "X_train m' = Some X"
    by (simp_all add: eq)
  have "alpha m' = Some (filter (\<lambda>v. 1 / 100000 < v) (st_alpha st))"
    using fields(2) unfolding retained_self .
  with K st len lena fields p show ?thesis by blast
qed

theorem fit_retains_support_vectors_witness:
  "\<exists>K st. kernel_fn (CustomSVM ''linear'' 1 1 3 1) [[0], [1], [1000]] (Some [[0], [1], [1000]]) = Inr K \<and>
      smo_loop (C (CustomSVM ''linear'' 1 1 3 1)) (1 / 1000) alternating (relabel ([[0, 1, 1]] ! 0)) K
        (length [[0], [1], [1000 :: real]]) (nat 1000) (smo_init (length [[0], [1], [1000 :: real]]) 0)
        = Some st \<and>
      length ([[0, 1, 1 :: real]] ! 0) = length [[0], [1], [1000 :: real]] \<and>
      length (st_alpha st) = length [[0], [1], [1000 :: real]] \<and>
      Some [[0], [1 :: real]] = Some (retained (st_alpha st) [[0], [1], [1000]]) \<and>
      Some [1, 1 :: real] = Some (retained (st_alpha st) (st_alpha st)) \<and>
      Some [1, 1 :: real] = Some (filter (\<lambda>v. 1 / 100000 < v) (st_alpha st)) \<and>
      Some [- 1, 1 :: real] = Some (retained (st_alpha st) (relabel ([[0, 1, 1]] ! 0))) \<and>
      - (1 / 2) = st_b st \<and> Some [[0], [1], [1000 :: real]] = Some [[0], [1], [1000]] \<and>
      (1 :: nat) = st_pos st"
proof -
  let ?m' = "\<lparr>kernel = ''linear'', C = 1, gamma = 1, degree = 3, coef0 = 1,
              alpha = Some [1, 1], b = - (1 / 2), X_train = Some [[0], [1], [1000]],
              y_train = Some [- 1, 1], support_vectors = Some [[0], [1]]\<rparr>"
  have run: "fit (CustomSVM ''linear'' 1 1 3 1) [[0, 1, 1]] [[0], [1], [1000]] 0 1000 (1 / 1000) alternating 0
     = Some (Inr (), ?m', 1, [[0, 1, 1], [- 1, 1, 1]])"
    by (simp add: run_simps)
  have sel: "support_vectors ?m' = Some [[0], [1]]" "alpha ?m' = Some [1, 1]"
    "y_train ?m' = Some [- 1, 1]" "b ?m' = - (1 / 2)" "X_train ?m' = Some [[0], [1], [1000]]"
    by simp_all
  from fit_retains_support_vectors [OF run] show ?thesis
    unfolding sel .
qed

text \<open>
  The specification has all other per-sample state dropped. After \<open>fit\<close> on the rows
  (0) and (1000) no sample is a support vector, and \<open>self.X_train\<close> still holds both
  rows.
\<close>

theorem fit_retains_counterexample:
  "fit (CustomSVM ''linear'' 1 1 3 1) [[- 1, 1]] [[0], [1000]] 0 1000 (1 / 1000) alternating 0
     = Some (Inr (),
             \<lparr>kernel = ''linear'', C = 1, gamma = 1, degree = 3, coef0 = 1,
              alpha = Some [], b = 0, X_train = Some [[0], [1000]],
              y_train = Some [], support_vectors = Some []\<rparr>,
             2, [[- 1, 1], [- 1, 1]])"
  by (simp add: run_simps)

section \<open>Training data that is not validated\<close>

text \<open>When all labels are equal and all multipliers are 0, the bounds L and H of every
  pair are both 0, and a step changes nothing.\<close>

lemma pair_update_one_class:
  assumes "0 \<le> Cc" and "ys ! i = ys ! j" and "st_alpha st ! i = 0" and "st_alpha st ! j = 0"
  shows "pair_update Cc ys K i j Ei st = st"
  using assms by (simp add: pair_update_def bounds_def Let_def)

lemma smo_pass_one_class:
  assumes c: "0 \<le> Cc" and lab: "\<forall>v\<in>set ys. v = l" and len: "length ys = n"
    and draws: "\<forall>k. rng k < n"
  shows "\<forall>i\<in>set idx. i < n \<and> (\<forall>k. \<exists>d. rng (k + d) \<noteq> i) \<Longrightarrow>
         st_alpha st = replicate n 0 \<Longrightarrow>
         \<exists>p. smo_pass Cc tol rng ys K idx st = Some (st\<lparr>st_pos := p\<rparr>)"
proof (induction idx arbitrary: st)
  case Nil
  have "st = st\<lparr>st_pos := st_pos st\<rparr>" by simp
  then show ?case by (metis smo_pass.simps(1))
next
  case (Cons i rest)
  let ?Ei = "error_at K ys (st_alpha st) (st_b st) i"
  from Cons.prems(1) have rest: "\<forall>i\<in>set rest. i < n \<and> (\<forall>k. \<exists>d. rng (k + d) \<noteq> i)"
    and i: "i < n" by simp_all
  show ?case
  proof (cases "kkt_violated Cc tol ys (st_alpha st) i ?Ei")
    case False
    with Cons.IH [OF rest Cons.prems(2)] show ?thesis by (simp add: Let_def)
  next
    case True
    from Cons.prems(1) obtain d where "rng (st_pos st + d) \<noteq> i" by fastforce
    from pick_partner_returns [of rng "st_pos st" d i, OF this]
    obtain j p where pick: "pick_partner rng i (st_pos st) = Some (j, p)" by fastforce
    from pick_partner_Some [OF pick] draws have j: "j < n" by simp
    from lab len i j have same: "ys ! i = ys ! j" by (metis nth_mem)
    have zero: "st_alpha (st\<lparr>st_pos := p\<rparr>) ! i = 0" "st_alpha (st\<lparr>st_pos := p\<rparr>) ! j = 0"
      using Cons.prems(2) i j by simp_all
    have step: "pair_update Cc ys K i j ?Ei (st\<lparr>st_pos := p\<rparr>) = st\<lparr>st_pos := p\<rparr>"
      using c same zero by (rule pair_update_one_class)
    from Cons.IH [OF rest, of "st\<lparr>st_pos := p\<rparr>"] Cons.prems(2)
    obtain p' where "smo_pass Cc tol rng ys K rest (st\<lparr>st_pos := p\<rparr>) = Some (st\<lparr>st_pos := p'\<rparr>)"
      by auto
    with True pick step
    have "smo_pass Cc tol rng ys K (i # rest) st = Some (st\<lparr>st_pos := p'\<rparr>)"
      by (simp add: Let_def)
    then show ?thesis by blast
  qed
qed

lemma smo_loop_one_class:
  assumes "0 \<le> Cc" and "\<forall>v\<in>set ys. v = l" and "length ys = n"
    and "n = 0 \<or> (\<forall>k. rng k < n)" and "\<forall>i<n. \<forall>k. \<exists>d. rng (k + d) \<noteq> i"
  shows "\<exists>st. smo_loop Cc tol rng ys K n k (smo_init n pos) = Some st \<and>
              st_alpha st = replicate n 0 \<and> st_b st = 0"
proof (cases k)
  case 0
  then show ?thesis by (simp add: smo_init_def)
next
  case (Suc k')
  let ?st0 = "(smo_init n pos)\<lparr>st_changed := 0\<rparr>"
  have "\<exists>p. smo_pass Cc tol rng ys K [0..<n] ?st0 = Some (?st0\<lparr>st_pos := p\<rparr>)"
  proof (cases "n = 0")
    case True
    have "?st0 = ?st0\<lparr>st_pos := st_pos ?st0\<rparr>" by simp
    with True show ?thesis by (metis smo_pass.simps(1) upt_0)
  next
    case False
    with assms(4) have draws: "\<forall>k. rng k < n" by simp
    show ?thesis
      using assms(5)
      by (intro smo_pass_one_class [OF assms(1-3) draws]) (simp_all add: smo_init_def)
  qed
  then obtain p where "smo_pass Cc tol rng ys K [0..<n] ?st0 = Some (?st0\<lparr>st_pos := p\<rparr>)"
    by blast
  with Suc show ?thesis by (simp add: Let_def smo_init_def)
qed

lemma retained_zeros: "retained (replicate n 0) xs = []"
  by (simp add: retained_def filter_empty_conv)

text \<open>
  C2, as the code has it. \<open>fit\<close> has no check of its training data and no condition for
  rejecting it. Take a supported kernel, a bound C that is not negative, one label per
  row, and labels that are all equal (or none, when X has no rows), on a number of rows
  other than one; let the draws be sample indices that never stay on one index for
  ever. Then \<open>fit\<close> returns normally: it leaves a model with no support vectors and the
  bias 0. Nothing is said here of a call with exactly one row.
\<close>

theorem fit_trains_on_one_class:
  assumes "kernel m \<in> {''linear'', ''poly'', ''rbf''}" and "0 \<le> C m"
    and "length (s ! y) = length X" and "length X \<noteq> 1"
    and "\<forall>v\<in>set (s ! y). v = l"
    and "X = [] \<or> (\<forall>k. rng k < length X)"
    and "\<forall>i<length X. \<forall>k. \<exists>d. rng (k + d) \<noteq> i"
  shows "\<exists>m' p. fit m s X y max_iter tol rng pos = Some (Inr (), m', p, s @ [relabel (s ! y)]) \<and>
                support_vectors m' = Some [] \<and> alpha m' = Some [] \<and> y_train m' = Some [] \<and>
                b m' = 0 \<and> X_train m' = Some X"
proof -
  obtain K where K: "kernel_fn m X (Some X) = Inr K"
    using kernel_fn_supported [OF assms(1)] by blast
  let ?ys = "relabel (s ! y)"
  have lab: "\<forall>v\<in>set ?ys. v = (if l = 0 then - 1 else l)"
    using assms(5) by (auto simp: relabel_def)
  have len: "length ?ys = length X"
    using assms(3) by (simp add: relabel_def)
  have draws: "length X = 0 \<or> (\<forall>k. rng k < length X)"
    using assms(6) by simp
  from smo_loop_one_class [OF assms(2) lab len draws assms(7)]
  obtain st where
    st: "smo_loop (C m) tol rng ?ys K (length X) (nat max_iter) (smo_init (length X) pos) = Some st"
    and a: "st_alpha st = replicate (length X) 0" and b0: "st_b st = 0"
    by blast
  show ?thesis
    unfolding fit_from_loop [OF K assms(3) st] a b0 retained_zeros by simp
qed

theorem fit_trains_on_one_class_witness:
  "\<exists>m' p. fit (CustomSVM ''rbf'' 1 1 3 1) [[1, 1, 1]] [[0, 1], [1, 1], [2, 0]] 0 1000 (1 / 1000)
              alternating 0
            = Some (Inr (), m', p, [[1, 1, 1]] @ [relabel ([[1, 1, 1]] ! 0)]) \<and>
          support_vectors m' = Some [] \<and> alpha m' = Some [] \<and> y_train m' = Some [] \<and>
          b m' = 0 \<and> X_train m' = Some [[0, 1], [1, 1], [2, 0]]"
proof -
  have h1: "kernel (CustomSVM ''rbf'' 1 1 3 1) \<in> {''linear'', ''poly'', ''rbf''}"
    by (simp add: CustomSVM_def)
  have h2: "0 \<le> C (CustomSVM ''rbf'' 1 1 3 1)"
    by (simp add: CustomSVM_def)
  have h3: "length ([[1, 1, 1 :: real]] ! 0) = length [[0, 1], [1, 1], [2, 0 :: real]]"
    by simp
  have h4: "length [[0, 1], [1, 1], [2, 0 :: real]] \<noteq> 1"
    by simp
  have h5: "\<forall>v\<in>set ([[1, 1, 1 :: real]] ! 0). v = 1"
    by simp
  have h6: "[[0, 1], [1, 1], [2, 0 :: real]] = [] \<or>
            (\<forall>k. alternating k < length [[0, 1], [1, 1], [2, 0 :: real]])"
    by (simp add: alternating_def)
  have h7: "\<forall>i<length [[0, 1], [1, 1], [2, 0 :: real]]. \<forall>k. \<exists>d. alternating (k + d) \<noteq> i"
    using alternating_fair by blast
  show ?thesis
    by (rule fit_trains_on_one_class [OF h1 h2 h3 h4 h5 h6 h7])
qed

text \<open>
  The specification has both of these calls fail with InvalidTrainingData. Two rows with
  the single label 1, and no rows at all, are trained on without any error.
\<close>

theorem fit_rejects_counterexample:
  "fit (CustomSVM ''linear'' 1 1 3 1) [[1, 1]] [[0], [1]] 0 1000 (1 / 1000) alternating 0
     = Some (Inr (),
             \<lparr>kernel = ''linear'', C = 1, gamma = 1, degree = 3, coef0 = 1,
              alpha = Some [], b = 0, X_train = Some [[0], [1]],
              y_train = Some [], support_vectors = Some []\<rparr>,
             2, [[1, 1], [1, 1]]) \<and>
   fit (CustomSVM ''linear'' 1 1 3 1) [[]] [] 0 1000 (1 / 1000) alternating 0
     = Some (Inr (),
             \<lparr>kernel = ''linear'', C = 1, gamma = 1, degree = 3, coef0 = 1,
              alpha = Some [], b = 0, X_train = Some [],
              y_train = Some [], support_vectors = Some []\<rparr>,
             0, [[], []])"
  by (simp add: run_simps)

end
